theory Spec2Isabelle
  imports Main "HOL-Library.Word"
begin

section \<open>Voice interaction controller (static/script.js)\<close>

text \<open>
  The script keeps two module-level variables (\<^verbatim>\<open>recognition\<close>, \<^verbatim>\<open>listening\<close>) and drives
  the page, the speech recogniser, the speech synthesiser and three HTTP end points.
  The embedding threads one record, the world, through every function: the script's two
  variables, the part of the page the script touches, the recogniser objects created so
  far, the synthesiser's queue, the location of the page, and the sequence of calls
  made to the browser, in the order they were made.
  What the browser decides (which recognition constructors exist, whether a
  recogniser's \<^verbatim>\<open>stop()\<close> throws, how a request ends) is the environment, a parameter.

  The script uses \<^verbatim>\<open>document\<close>, \<^verbatim>\<open>window.speechSynthesis\<close>, \<^verbatim>\<open>fetch\<close>, \<^verbatim>\<open>alert\<close> and \<^verbatim>\<open>console\<close>
  without testing for them; the embedding takes them to exist and their calls to
  return, as it does for constructing a recogniser from a constructor and for
  \<^verbatim>\<open>start()\<close> on the fresh object. Every other way a statement of the script can throw
  (a property of \<^verbatim>\<open>null\<close>, \<^verbatim>\<open>new\<close> on a value that is no constructor, \<^verbatim>\<open>stop()\<close>, a failed
  or unparsable request) is a branch of the functions below.
\<close>

subsection \<open>Strings\<close>

text \<open>
  A JavaScript string is a sequence of 16-bit code units. \<open>str\<close> embeds the ASCII
  literals of the source.
\<close>

type_synonym js_string = "16 word list"

definition str :: "string \<Rightarrow> js_string" where
  "str s = map (\<lambda>c. of_nat (of_char c)) s"

text \<open>
  \<^verbatim>\<open>String.prototype.trim\<close> removes leading and trailing white space and line
  terminators: TAB, LF, VT, FF, CR, SP, NBSP, U+1680, U+2000..U+200A, U+2028, U+2029,
  U+202F, U+205F, U+3000 and U+FEFF (all single code units).
\<close>

definition js_whitespace :: "16 word \<Rightarrow> bool" where
  "js_whitespace c \<longleftrightarrow>
     c = 0x9 \<or> c = 0xA \<or> c = 0xB \<or> c = 0xC \<or> c = 0xD \<or> c = 0x20 \<or> c = 0xA0 \<or>
     c = 0x1680 \<or> (0x2000 \<le> c \<and> c \<le> 0x200A) \<or> c = 0x2028 \<or> c = 0x2029 \<or>
     c = 0x202F \<or> c = 0x205F \<or> c = 0x3000 \<or> c = 0xFEFF"

definition js_trim :: "js_string \<Rightarrow> js_string" where
  "js_trim s = rev (dropWhile js_whitespace (rev (dropWhile js_whitespace s)))"

text \<open>The three string constants of the script that are shown to the user.\<close>

definition listening_label :: js_string where
  "listening_label = str ''Listening... '' @ [0xD83C, 0xDFA7]"

definition idle_label :: js_string where
  "idle_label = str ''Start Listening '' @ [0xD83C, 0xDFA4]"

definition unsupported_message :: js_string where
  "unsupported_message =
     str ''Speech recognition not supported in this browser. Use Chrome (desktop or mobile).''"

definition fallback_reply :: js_string where
  "fallback_reply =
     str (''I didn'' @ [CHR 0x27] @ ''t catch that. Try asking about leave balance, booking meeting rooms, or ''
          @ [CHR 0x27] @ ''show policies'' @ [CHR 0x27] @ ''.'')"

subsection \<open>Values, errors and results\<close>

text \<open>The argument of \<^verbatim>\<open>speak\<close>: a string, or one of the two empty values.\<close>

datatype js_value = Undefined | Null | Str js_string

fun truthy :: "js_value \<Rightarrow> bool" where
  "truthy Undefined = False"
| "truthy Null = False"
| "truthy (Str s) = (s \<noteq> [])"

datatype js_error = TypeError | InvalidStateError | NetworkError | SyntaxError

text \<open>How a call of an ordinary function ends, and how the promise of an \<^verbatim>\<open>async\<close> one ends.\<close>

datatype completion = Returned | Threw js_error

datatype promise = Fulfilled | Rejected js_error | Pending

subsection \<open>The page, the recogniser, the synthesiser and the network\<close>

datatype handler = StartRecognition | StopAll | ResetUI | Logout

text \<open>
  An element of the page, as far as the script uses it: a form control with its
  \<^verbatim>\<open>textContent\<close>, its \<^verbatim>\<open>value\<close> and its click listeners.
\<close>

record element =
  textContent :: js_string
  el_value :: js_string
  listeners :: "handler list"

datatype api = Standard | Webkit

record recognizer =
  ctor :: api
  lang :: js_string
  interimResults :: bool
  maxAlternatives :: nat
  started :: bool
  stopped :: bool

record utterance =
  spoken :: js_string
  rate :: nat

datatype http_method = GET | POST

record ask_body =
  message :: js_string
  email :: js_string

record request =
  url :: string
  http_method :: http_method
  headers :: "(string \<times> string) list"
  body :: "ask_body option"

text \<open>
  The body of a response: not JSON at all, or an object whose \<^verbatim>\<open>reply\<close> is a string
  when it is present (the shape the script's interface table gives for \<^verbatim>\<open>/ask\<close>).
\<close>

datatype response_body = NotJson | Json "js_string option"

record response =
  status :: nat
  payload :: response_body

datatype net_outcome = NetResolves response | NetRejects | NetPending

text \<open>
  A property of \<^verbatim>\<open>window\<close>: missing, or there with a value. The value is falsy, or a
  constructor, or some other truthy value, which \<^verbatim>\<open>||\<close> keeps and \<^verbatim>\<open>new\<close> rejects.
\<close>

datatype js_prop_value = Falsy | Constructor | OtherTruthy

datatype js_prop = Absent | Present js_prop_value

record env =
  std_prop :: js_prop
  webkit_prop :: js_prop
  stop_throws :: "nat \<Rightarrow> bool"
  network :: "request \<Rightarrow> net_outcome"

text \<open>Every call the script makes that is visible outside it.\<close>

datatype effect =
    Alert js_string
  | ConsoleError
  | ConsoleWarn
  | SynthCancel
  | SynthSpeak utterance
  | Fetch request
  | RecNew nat
  | RecStart nat
  | RecStop nat
  | SetTextContent string js_string
  | SetValue string js_string
  | AddListener string handler
  | Navigate js_string

record world =
  document :: "string \<rightharpoonup> element"
  recognition :: "nat option"
  listening :: bool
  heap :: "recognizer list"
  queue :: "utterance list"
  href :: js_string
  trace :: "effect list"

definition emit :: "effect list \<Rightarrow> world \<Rightarrow> world" where
  "emit es st = st\<lparr>trace := trace st @ es\<rparr>"

text \<open>The world without the record of calls: what a later call of the script can read.\<close>

definition page_state :: "world \<Rightarrow> world" where
  "page_state st = st\<lparr>trace := []\<rparr>"

text \<open>\<^verbatim>\<open>if (btn) btn.textContent = s\<close> and \<^verbatim>\<open>if (u) u.value = s\<close>, after \<^verbatim>\<open>getElementById\<close>.\<close>

definition set_textContent_if_present :: "string \<Rightarrow> js_string \<Rightarrow> world \<Rightarrow> world" where
  "set_textContent_if_present i s st =
     (case document st i of
        None \<Rightarrow> st
      | Some e \<Rightarrow> emit [SetTextContent i s]
                   (st\<lparr>document := (document st)(i \<mapsto> e\<lparr>textContent := s\<rparr>)\<rparr>))"

definition set_value_if_present :: "string \<Rightarrow> js_string \<Rightarrow> world \<Rightarrow> world" where
  "set_value_if_present i s st =
     (case document st i of
        None \<Rightarrow> st
      | Some e \<Rightarrow> emit [SetValue i s]
                   (st\<lparr>document := (document st)(i \<mapsto> e\<lparr>el_value := s\<rparr>)\<rparr>))"

text \<open>\<^verbatim>\<open>document.getElementById(i).value = s\<close>: a TypeError when there is no such element.\<close>

definition set_value :: "string \<Rightarrow> js_string \<Rightarrow> world \<Rightarrow> completion \<times> world" where
  "set_value i s st =
     (case document st i of
        None \<Rightarrow> (Threw TypeError, st)
      | Some e \<Rightarrow> (Returned, emit [SetValue i s]
                     (st\<lparr>document := (document st)(i \<mapsto> e\<lparr>el_value := s\<rparr>)\<rparr>)))"

subsection \<open>speak\<close>

definition synth_cancel :: "world \<Rightarrow> world" where
  "synth_cancel st = emit [SynthCancel] (st\<lparr>queue := []\<rparr>)"

definition synth_speak :: "utterance \<Rightarrow> world \<Rightarrow> world" where
  "synth_speak u st = emit [SynthSpeak u] (st\<lparr>queue := queue st @ [u]\<rparr>)"

fun to_string :: "js_value \<Rightarrow> js_string" where
  "to_string Undefined = str ''undefined''"
| "to_string Null = str ''null''"
| "to_string (Str s) = s"

definition speak :: "js_value \<Rightarrow> world \<Rightarrow> world" where
  "speak txt st =
     (if \<not> truthy txt then st
      else synth_speak \<lparr>spoken = to_string txt, rate = 1\<rparr> (synth_cancel st))"

subsection \<open>startRecognition and the recogniser's callbacks\<close>

text \<open>
  \<^verbatim>\<open>const Rec = window.SpeechRecognition || window.webkitSpeechRecognition\<close> and then
  \<^verbatim>\<open>new Rec()\<close>: the standard property's value when it is truthy, else whatever the
  prefixed property holds (\<^verbatim>\<open>undefined\<close> when it is missing); \<^verbatim>\<open>new\<close> throws a TypeError
  unless that value is a constructor.
\<close>

definition truthy_prop :: "js_prop \<Rightarrow> bool" where
  "truthy_prop p = (case p of Absent \<Rightarrow> False | Present v \<Rightarrow> v \<noteq> Falsy)"

definition pick_ctor :: "env \<Rightarrow> api option" where
  "pick_ctor ev =
     (if truthy_prop (std_prop ev)
        then (if std_prop ev = Present Constructor then Some Standard else None)
      else if webkit_prop ev = Present Constructor then Some Webkit
      else None)"

definition new_recognizer :: "api \<Rightarrow> recognizer" where
  "new_recognizer a =
     \<lparr>ctor = a, lang = [], interimResults = False, maxAlternatives = 1,
      started = False, stopped = False\<rparr>"

definition startRecognition :: "env \<Rightarrow> world \<Rightarrow> completion \<times> world" where
  "startRecognition ev st =
     (if listening st then (Returned, st)
      else if webkit_prop ev = Absent \<and> std_prop ev = Absent
        then (Returned, emit [Alert unsupported_message] st)
      else
        (case pick_ctor ev of
           None \<Rightarrow> (Threw TypeError, st)
         | Some a \<Rightarrow>
             (let r = length (heap st);
                  obj = (new_recognizer a)
                          \<lparr>lang := str ''en-US'', interimResults := False,
                           maxAlternatives := 1, started := True\<rparr>
              in (Returned,
                  emit [RecNew r, RecStart r]
                    (st\<lparr>heap := heap st @ [obj], recognition := Some r\<rparr>)))))"

definition onstart :: "world \<Rightarrow> world" where
  "onstart st = set_textContent_if_present ''micBtn'' listening_label (st\<lparr>listening := True\<rparr>)"

definition onerror :: "world \<Rightarrow> world" where
  "onerror st =
     set_textContent_if_present ''micBtn'' idle_label
       ((emit [ConsoleError] st)\<lparr>listening := False\<rparr>)"

definition onend :: "world \<Rightarrow> world" where
  "onend st = set_textContent_if_present ''micBtn'' idle_label (st\<lparr>listening := False\<rparr>)"

text \<open>
  The result event is the list of results, each the list of its alternatives'
  transcripts; \<^verbatim>\<open>event.results[0][0].transcript\<close> is a TypeError when there is none.
  The handler is \<^verbatim>\<open>async\<close>. \<open>onresult_head\<close> is what runs up to the first \<^verbatim>\<open>await\<close>
  (it ends with the request it has issued), \<open>onresult_tail\<close> is what runs after the
  second one, on the world as it is by then, with the parsed object's \<^verbatim>\<open>reply\<close>.
\<close>

type_synonym result_event = "js_string list list"

definition ask_request :: "js_string \<Rightarrow> js_string \<Rightarrow> request" where
  "ask_request t e =
     \<lparr>url = ''/ask'', http_method = POST,
      headers = [(''Content-Type'', ''application/json'')],
      body = Some \<lparr>message = t, email = e\<rparr>\<rparr>"

definition email_of :: "world \<Rightarrow> js_string" where
  "email_of st =
     (case document st ''emailField'' of
        Some e \<Rightarrow> js_trim (el_value e)
      | None \<Rightarrow> [])"

definition onresult_head :: "world \<Rightarrow> result_event \<Rightarrow> (js_error + request) \<times> world" where
  "onresult_head st event =
     (case event of
        (t # _) # _ \<Rightarrow>
          (case set_value ''userText'' t st of
             (Threw e, st1) \<Rightarrow> (Inl e, st1)
           | (Returned, st1) \<Rightarrow>
               (let req = ask_request t (email_of st1)
                in (Inr req, emit [Fetch req] st1)))
      | _ \<Rightarrow> (Inl TypeError, st))"

text \<open>\<^verbatim>\<open>out.reply || "I didn't catch that. ..."\<close>\<close>

definition reply_or_fallback :: "js_string option \<Rightarrow> js_string" where
  "reply_or_fallback out =
     (case out of
        Some r \<Rightarrow> if truthy (Str r) then r else fallback_reply
      | None \<Rightarrow> fallback_reply)"

definition onresult_tail :: "world \<Rightarrow> js_string option \<Rightarrow> completion \<times> world" where
  "onresult_tail st out =
     (let reply = reply_or_fallback out
      in case set_value ''botText'' reply st of
           (Threw e, st1) \<Rightarrow> (Threw e, st1)
         | (Returned, st1) \<Rightarrow> (Returned, speak (Str reply) st1))"

text \<open>The handler with nothing else running between its parts.\<close>

definition onresult :: "env \<Rightarrow> world \<Rightarrow> result_event \<Rightarrow> promise \<times> world" where
  "onresult ev st event =
     (case onresult_head st event of
        (Inl e, st1) \<Rightarrow> (Rejected e, st1)
      | (Inr req, st1) \<Rightarrow>
          (case network ev req of
             NetPending \<Rightarrow> (Pending, st1)
           | NetRejects \<Rightarrow> (Rejected NetworkError, st1)
           | NetResolves res \<Rightarrow>
               (case payload res of
                  NotJson \<Rightarrow> (Rejected SyntaxError, st1)
                | Json out \<Rightarrow>
                    (case onresult_tail st1 out of
                       (Threw e, st2) \<Rightarrow> (Rejected e, st2)
                     | (Returned, st2) \<Rightarrow> (Fulfilled, st2)))))"

subsection \<open>stopAll, resetUI, logout\<close>

text \<open>\<^verbatim>\<open>recognition.stop()\<close> on object \<open>r\<close>: the browser may throw.\<close>

definition rec_stop :: "env \<Rightarrow> nat \<Rightarrow> world \<Rightarrow> completion \<times> world" where
  "rec_stop ev r st =
     (if stop_throws ev r then (Threw InvalidStateError, emit [RecStop r] st)
      else (Returned,
            emit [RecStop r] (st\<lparr>heap := (heap st)[r := (heap st ! r)\<lparr>stopped := True\<rparr>]\<rparr>)))"

definition stopAll :: "env \<Rightarrow> world \<Rightarrow> completion \<times> world" where
  "stopAll ev st =
     (let st1 =
            (case recognition st of
               None \<Rightarrow> st
             | Some r \<Rightarrow>
                 (let st' = (case rec_stop ev r st of
                               (Threw e, s) \<Rightarrow> emit [ConsoleWarn] s
                             | (Returned, s) \<Rightarrow> s)
                  in st'\<lparr>recognition := None\<rparr>));
          st2 = synth_cancel st1;
          st3 = st2\<lparr>listening := False\<rparr>
      in (Returned, set_textContent_if_present ''micBtn'' idle_label st3))"

definition reset_request :: request where
  "reset_request = \<lparr>url = ''/reset'', http_method = POST, headers = [], body = None\<rparr>"

definition logout_request :: request where
  "logout_request = \<lparr>url = ''/logout'', http_method = GET, headers = [], body = None\<rparr>"

text \<open>\<^verbatim>\<open>await fetch(...)\<close> where the response is not used.\<close>

definition await_fetch :: "env \<Rightarrow> request \<Rightarrow> promise" where
  "await_fetch ev req =
     (case network ev req of
        NetResolves _ \<Rightarrow> Fulfilled
      | NetRejects \<Rightarrow> Rejected NetworkError
      | NetPending \<Rightarrow> Pending)"

definition resetUI :: "env \<Rightarrow> world \<Rightarrow> promise \<times> world" where
  "resetUI ev st =
     (case stopAll ev st of
        (Threw e, st1) \<Rightarrow> (Rejected e, st1)
      | (Returned, st1) \<Rightarrow>
          (let st2 = set_value_if_present ''userText'' [] st1;
               st3 = set_value_if_present ''botText'' [] st2
           in (await_fetch ev reset_request, emit [Fetch reset_request] st3)))"

text \<open>\<^verbatim>\<open>window.location.href = "/login"\<close>, the statement after logout's \<^verbatim>\<open>await\<close>.\<close>

definition logout_tail :: "world \<Rightarrow> world" where
  "logout_tail st = emit [Navigate (str ''/login'')] (st\<lparr>href := str ''/login''\<rparr>)"

definition logout :: "env \<Rightarrow> world \<Rightarrow> promise \<times> world" where
  "logout ev st =
     (let st1 = emit [Fetch logout_request] st
      in case await_fetch ev logout_request of
           Fulfilled \<Rightarrow> (Fulfilled, logout_tail st1)
         | p \<Rightarrow> (p, st1))"

subsection \<open>Wiring on DOMContentLoaded\<close>

definition add_listener_if_present :: "string \<Rightarrow> handler \<Rightarrow> world \<Rightarrow> world" where
  "add_listener_if_present i h st =
     (case document st i of
        None \<Rightarrow> st
      | Some e \<Rightarrow> emit [AddListener i h]
                   (st\<lparr>document := (document st)(i \<mapsto> e\<lparr>listeners := listeners e @ [h]\<rparr>)\<rparr>))"

definition domContentLoaded :: "world \<Rightarrow> world" where
  "domContentLoaded st =
     add_listener_if_present ''logoutBtn'' Logout
       (add_listener_if_present ''resetBtn'' ResetUI
         (add_listener_if_present ''stopBtn'' StopAll
           (add_listener_if_present ''micBtn'' StartRecognition st)))"

subsection \<open>Runs of the page\<close>

text \<open>The requests among the calls made, in order.\<close>

fun fetches :: "effect list \<Rightarrow> request list" where
  "fetches [] = []"
| "fetches (Fetch r # es) = r # fetches es"
| "fetches (_ # es) = fetches es"

text \<open>
  The worlds a page can be in. The script is loaded with \<^verbatim>\<open>recognition = null\<close> and
  \<^verbatim>\<open>listening = false\<close>, and no recogniser exists yet. From there the wiring runs, the four
  commands are called (by a click or otherwise), and the browser fires a recogniser's
  callbacks, which only a recogniser that was constructed and started can receive.
  The parts of the \<^verbatim>\<open>async\<close> functions that run after an \<^verbatim>\<open>await\<close> are steps of their own,
  since other steps may come in between.
\<close>

inductive reachable :: "env \<Rightarrow> world \<Rightarrow> bool" for ev :: env where
  page_load: "recognition st = None \<Longrightarrow> \<not> listening st \<Longrightarrow> heap st = [] \<Longrightarrow> reachable ev st"
| dom_ready: "reachable ev st \<Longrightarrow> reachable ev (domContentLoaded st)"
| call_start: "reachable ev st \<Longrightarrow> reachable ev (snd (startRecognition ev st))"
| call_stop: "reachable ev st \<Longrightarrow> reachable ev (snd (stopAll ev st))"
| call_reset: "reachable ev st \<Longrightarrow> reachable ev (snd (resetUI ev st))"
| call_logout: "reachable ev st \<Longrightarrow> reachable ev (snd (logout ev st))"
| resume_logout: "reachable ev st \<Longrightarrow> reachable ev (logout_tail st)"
| fire_start:
    "reachable ev st \<Longrightarrow> r < length (heap st) \<Longrightarrow> started (heap st ! r) \<Longrightarrow>
     reachable ev (onstart st)"
| fire_result:
    "reachable ev st \<Longrightarrow> r < length (heap st) \<Longrightarrow> started (heap st ! r) \<Longrightarrow>
     reachable ev (snd (onresult_head st event))"
| resume_result:
    "reachable ev st \<Longrightarrow> heap st \<noteq> [] \<Longrightarrow> reachable ev (snd (onresult_tail st out))"
| fire_error:
    "reachable ev st \<Longrightarrow> r < length (heap st) \<Longrightarrow> started (heap st ! r) \<Longrightarrow>
     reachable ev (onerror st)"
| fire_end:
    "reachable ev st \<Longrightarrow> r < length (heap st) \<Longrightarrow> started (heap st ! r) \<Longrightarrow>
     reachable ev (onend st)"

subsection \<open>Concrete pages and browsers\<close>

definition blank :: element where
  "blank = \<lparr>textContent = [], el_value = [], listeners = []\<rparr>"

text \<open>A page with every element the script looks up, and one with the buttons only.\<close>

definition full_page :: "string \<rightharpoonup> element" where
  "full_page =
     [''micBtn'' \<mapsto> blank\<lparr>textContent := idle_label\<rparr>,
      ''stopBtn'' \<mapsto> blank, ''resetBtn'' \<mapsto> blank, ''logoutBtn'' \<mapsto> blank,
      ''userText'' \<mapsto> blank\<lparr>el_value := str ''old question''\<rparr>,
      ''botText'' \<mapsto> blank\<lparr>el_value := str ''old answer''\<rparr>,
      ''emailField'' \<mapsto> blank\<lparr>el_value := str '' ann@corp.example  ''\<rparr>]"

definition buttons_page :: "string \<rightharpoonup> element" where
  "buttons_page =
     [''micBtn'' \<mapsto> blank\<lparr>textContent := idle_label\<rparr>,
      ''stopBtn'' \<mapsto> blank, ''resetBtn'' \<mapsto> blank, ''logoutBtn'' \<mapsto> blank]"

definition fresh :: "(string \<rightharpoonup> element) \<Rightarrow> world" where
  "fresh d =
     \<lparr>document = d, recognition = None, listening = False, heap = [], queue = [],
      href = str ''/'', trace = []\<rparr>"

text \<open>
  A browser with the prefixed recogniser whose server answers every request with the
  given status and body; one without any recogniser; one whose requests all fail.
\<close>

definition chrome :: "nat \<Rightarrow> response_body \<Rightarrow> env" where
  "chrome s b =
     \<lparr>std_prop = Absent, webkit_prop = Present Constructor, stop_throws = (\<lambda>_. False),
      network = (\<lambda>_. NetResolves \<lparr>status = s, payload = b\<rparr>)\<rparr>"

definition no_recognizer :: env where
  "no_recognizer =
     \<lparr>std_prop = Absent, webkit_prop = Absent, stop_throws = (\<lambda>_. False),
      network = (\<lambda>_. NetResolves \<lparr>status = 200, payload = NotJson\<rparr>)\<rparr>"

definition offline :: env where
  "offline =
     \<lparr>std_prop = Absent, webkit_prop = Present Constructor, stop_throws = (\<lambda>_. True),
      network = (\<lambda>_. NetRejects)\<rparr>"

text \<open>A world with a session that is listening, in the browser whose \<^verbatim>\<open>stop()\<close> throws.\<close>

definition live :: world where
  "live = onstart (snd (startRecognition offline (fresh full_page)))"


section \<open>Properties\<close>

subsection \<open>Frame lemmas and the effect of each function\<close>

lemma emit_simps [simp]:
  "document (emit es st) = document st"
  "recognition (emit es st) = recognition st"
  "listening (emit es st) = listening st"
  "heap (emit es st) = heap st"
  "queue (emit es st) = queue st"
  "href (emit es st) = href st"
  "trace (emit es st) = trace st @ es"
  by (simp_all add: emit_def)

lemma page_state_emit [simp]: "page_state (emit es st) = page_state st"
  by (simp add: page_state_def emit_def)

lemma set_textContent_simps [simp]:
  "recognition (set_textContent_if_present i s st) = recognition st"
  "listening (set_textContent_if_present i s st) = listening st"
  "heap (set_textContent_if_present i s st) = heap st"
  "queue (set_textContent_if_present i s st) = queue st"
  "href (set_textContent_if_present i s st) = href st"
  by (simp_all add: set_textContent_if_present_def split: option.splits)

lemma set_textContent_document:
  "document (set_textContent_if_present i s st) j =
     (if j = i then map_option (\<lambda>e. e\<lparr>textContent := s\<rparr>) (document st i) else document st j)"
  by (simp add: set_textContent_if_present_def split: option.splits)

lemma set_textContent_trace:
  "trace (set_textContent_if_present i s st) =
     trace st @ (case document st i of None \<Rightarrow> [] | Some _ \<Rightarrow> [SetTextContent i s])"
  by (simp add: set_textContent_if_present_def split: option.splits)

lemma stopAll_returns: "fst (stopAll ev st) = Returned"
  by (simp add: stopAll_def Let_def)

lemma stopAll_globals:
  "recognition (snd (stopAll ev st)) = None"
  "listening (snd (stopAll ev st)) = False"
  "queue (snd (stopAll ev st)) = []"
  "href (snd (stopAll ev st)) = href st"
  by (simp_all add: stopAll_def Let_def synth_cancel_def rec_stop_def split: option.splits prod.splits completion.splits)

lemma stopAll_document:
  "document (snd (stopAll ev st)) j =
     (if j = ''micBtn'' then map_option (\<lambda>e. e\<lparr>textContent := idle_label\<rparr>) (document st ''micBtn'')
      else document st j)"
  by (simp add: stopAll_def Let_def synth_cancel_def rec_stop_def set_textContent_document
      split: option.splits prod.splits completion.splits)

lemma stopAll_idle_fixed:
  assumes "recognition st = None" "queue st = []" "\<not> listening st"
    and "map_option textContent (document st ''micBtn'') = map_option (\<lambda>_. idle_label) (document st ''micBtn'')"
  shows "page_state (snd (stopAll ev st)) = page_state st"
proof (cases "document st ''micBtn''")
  case None
  with assms show ?thesis
    by (simp add: stopAll_def Let_def synth_cancel_def set_textContent_if_present_def page_state_def emit_def)
next
  case (Some e)
  with assms have "e\<lparr>textContent := idle_label\<rparr> = e" by simp
  with Some have "(document st)(''micBtn'' \<mapsto> e\<lparr>textContent := idle_label\<rparr>) = document st"
    by (simp add: map_upd_triv)
  with Some assms show ?thesis
    by (simp add: stopAll_def Let_def synth_cancel_def set_textContent_if_present_def page_state_def emit_def)
qed

lemma stopAll_trace:
  "trace (snd (stopAll ev st)) =
     trace st
     @ (case recognition st of
          None \<Rightarrow> []
        | Some r \<Rightarrow> RecStop r # (if stop_throws ev r then [ConsoleWarn] else []))
     @ [SynthCancel]
     @ (case document st ''micBtn'' of None \<Rightarrow> [] | Some _ \<Rightarrow> [SetTextContent ''micBtn'' idle_label])"
  by (simp add: stopAll_def Let_def synth_cancel_def rec_stop_def set_textContent_trace
      split: option.splits prod.splits completion.splits)

lemma set_value_if_present_simps [simp]:
  "recognition (set_value_if_present i s st) = recognition st"
  "listening (set_value_if_present i s st) = listening st"
  "heap (set_value_if_present i s st) = heap st"
  "queue (set_value_if_present i s st) = queue st"
  "href (set_value_if_present i s st) = href st"
  by (simp_all add: set_value_if_present_def split: option.splits)

lemma set_value_if_present_document:
  "document (set_value_if_present i s st) j =
     (if j = i then map_option (\<lambda>e. e\<lparr>el_value := s\<rparr>) (document st i) else document st j)"
  by (simp add: set_value_if_present_def split: option.splits)

lemma set_value_if_present_trace:
  "trace (set_value_if_present i s st) =
     trace st @ (case document st i of None \<Rightarrow> [] | Some _ \<Rightarrow> [SetValue i s])"
  by (simp add: set_value_if_present_def split: option.splits)

lemma resetUI_unfold:
  "resetUI ev st =
     (await_fetch ev reset_request,
      emit [Fetch reset_request]
        (set_value_if_present ''botText'' []
          (set_value_if_present ''userText'' [] (snd (stopAll ev st)))))"
  using stopAll_returns [of ev st]
  by (cases "stopAll ev st") (simp add: resetUI_def Let_def)

lemma fetches_append [simp]: "fetches (xs @ ys) = fetches xs @ fetches ys"
  by (induction xs rule: fetches.induct) simp_all

lemma fetches_stopAll: "fetches (trace (snd (stopAll ev st))) = fetches (trace st)"
  by (simp add: stopAll_trace split: option.splits)

lemma email_of_emit_value:
  "i \<noteq> ''emailField'' \<Longrightarrow>
   email_of (emit es (st\<lparr>document := (document st)(i \<mapsto> e)\<rparr>)) = email_of st"
  by (simp add: email_of_def)

lemma onresult_head_ok:
  assumes "document st ''userText'' = Some u"
  shows "onresult_head st ((t # alts) # rest) =
           (Inr (ask_request t (email_of st)),
            st\<lparr>document := (document st)(''userText'' \<mapsto> u\<lparr>el_value := t\<rparr>),
               trace := trace st @ [SetValue ''userText'' t, Fetch (ask_request t (email_of st))]\<rparr>)"
  using assms
  by (simp add: onresult_head_def set_value_def Let_def email_of_emit_value)

lemma onresult_tail_ok:
  assumes "document st ''botText'' = Some b"
  shows "onresult_tail st out =
           (Returned,
            st\<lparr>document := (document st)(''botText'' \<mapsto> b\<lparr>el_value := reply_or_fallback out\<rparr>),
               queue := [\<lparr>spoken = reply_or_fallback out, rate = 1\<rparr>],
               trace := trace st @ [SetValue ''botText'' (reply_or_fallback out), SynthCancel,
                                    SynthSpeak \<lparr>spoken = reply_or_fallback out, rate = 1\<rparr>]\<rparr>)"
proof -
  have "reply_or_fallback out \<noteq> []"
    by (simp add: reply_or_fallback_def fallback_reply_def str_def split: option.splits)
  with assms show ?thesis
    by (simp add: onresult_tail_def set_value_def Let_def speak_def synth_speak_def
        synth_cancel_def emit_def)
qed

lemma onresult_tail_fetches: "fetches (trace (snd (onresult_tail st out))) = fetches (trace st)"
proof (cases "document st ''botText''")
  case None
  then show ?thesis by (simp add: onresult_tail_def set_value_def Let_def)
next
  case (Some b)
  then show ?thesis by (simp add: onresult_tail_ok)
qed

lemma snd_settle:
  "snd (case p of (Threw e, st2) \<Rightarrow> (Rejected e, st2) | (Returned, st2) \<Rightarrow> (Fulfilled, st2)) = snd p"
  by (simp split: prod.splits completion.splits)

lemma onresult_fetches:
  assumes "document st ''userText'' = Some u"
  shows "fetches (trace (snd (onresult ev st ((t # alts) # rest))))
           = fetches (trace st) @ [ask_request t (email_of st)]"
proof (cases "network ev (ask_request t (email_of st))")
  case (NetResolves res)
  then show ?thesis
    by (cases "payload res")
      (simp_all add: onresult_def onresult_head_ok [OF assms] snd_settle onresult_tail_fetches)
next
  case NetRejects
  then show ?thesis by (simp add: onresult_def onresult_head_ok [OF assms])
next
  case NetPending
  then show ?thesis by (simp add: onresult_def onresult_head_ok [OF assms])
qed

lemma onresult_resolved:
  assumes "document st ''userText'' = Some u" "document st ''botText'' = Some b"
    and "network ev (ask_request t (email_of st)) = NetResolves res" "payload res = Json out"
  shows "onresult ev st ((t # alts) # rest) =
           (Fulfilled,
            st\<lparr>document := (document st)(''userText'' \<mapsto> u\<lparr>el_value := t\<rparr>,
                                          ''botText'' \<mapsto> b\<lparr>el_value := reply_or_fallback out\<rparr>),
               queue := [\<lparr>spoken = reply_or_fallback out, rate = 1\<rparr>],
               trace := trace st @ [SetValue ''userText'' t, Fetch (ask_request t (email_of st)),
                                    SetValue ''botText'' (reply_or_fallback out), SynthCancel,
                                    SynthSpeak \<lparr>spoken = reply_or_fallback out, rate = 1\<rparr>]\<rparr>)"
proof -
  let ?st1 = "st\<lparr>document := (document st)(''userText'' \<mapsto> u\<lparr>el_value := t\<rparr>),
               trace := trace st @ [SetValue ''userText'' t, Fetch (ask_request t (email_of st))]\<rparr>"
  have b1: "document ?st1 ''botText'' = Some b" using assms(2) by simp
  show ?thesis
    using assms(3,4) by (simp add: onresult_def onresult_head_ok [OF assms(1)] onresult_tail_ok [OF b1])
qed

lemma add_listener_simps [simp]:
  "recognition (add_listener_if_present i h st) = recognition st"
  "listening (add_listener_if_present i h st) = listening st"
  "heap (add_listener_if_present i h st) = heap st"
  by (simp_all add: add_listener_if_present_def split: option.splits)

lemma stopAll_heap_length: "length (heap (snd (stopAll ev st))) = length (heap st)"
  by (simp add: stopAll_def Let_def synth_cancel_def rec_stop_def
      split: option.splits prod.splits completion.splits)

lemma onresult_head_globals:
  "recognition (snd (onresult_head st event)) = recognition st"
  "listening (snd (onresult_head st event)) = listening st"
  "heap (snd (onresult_head st event)) = heap st"
  by (simp_all add: onresult_head_def set_value_def Let_def
      split: list.splits option.splits prod.splits completion.splits)

lemma onresult_tail_globals:
  "recognition (snd (onresult_tail st out)) = recognition st"
  "listening (snd (onresult_tail st out)) = listening st"
  "heap (snd (onresult_tail st out)) = heap st"
  by (simp_all add: onresult_tail_def set_value_def Let_def speak_def synth_speak_def synth_cancel_def
      split: option.splits prod.splits completion.splits)

lemma logout_globals:
  "recognition (snd (logout ev st)) = recognition st"
  "listening (snd (logout ev st)) = listening st"
  "heap (snd (logout ev st)) = heap st"
  by (simp_all add: logout_def logout_tail_def Let_def split: promise.splits)

lemma unsupported_invariant:
  assumes "std_prop ev = Absent" "webkit_prop ev = Absent" "reachable ev st"
  shows "\<not> listening st \<and> heap st = [] \<and> recognition st = None"
  using assms(3)
proof (induction rule: reachable.induct)
  case (page_load st)
  then show ?case by simp
next
  case (dom_ready st)
  then show ?case by (simp add: domContentLoaded_def)
next
  case (call_start st)
  with assms(1,2) show ?case by (simp add: startRecognition_def)
next
  case (call_stop st)
  then show ?case using stopAll_heap_length [of ev st] by (simp add: stopAll_globals)
next
  case (call_reset st)
  then show ?case using stopAll_heap_length [of ev st] by (simp add: resetUI_unfold stopAll_globals)
next
  case (call_logout st)
  then show ?case by (simp add: logout_globals)
next
  case (resume_logout st)
  then show ?case by (simp add: logout_tail_def)
next
  case (fire_start st r)
  then show ?case by simp
next
  case (fire_result st r event)
  then show ?case by simp
next
  case (resume_result st out)
  then show ?case by simp
next
  case (fire_error st r)
  then show ?case by simp
next
  case (fire_end st r)
  then show ?case by simp
qed

lemma live_eval:
  "recognition live = Some 0" "listening live"
  "trace live = [RecNew 0, RecStart 0, SetTextContent ''micBtn'' listening_label]"
  "document live ''micBtn'' = Some (blank\<lparr>textContent := listening_label\<rparr>)"
  "document live ''userText'' = Some (blank\<lparr>el_value := str ''old question''\<rparr>)"
  "document live ''botText'' = Some (blank\<lparr>el_value := str ''old answer''\<rparr>)"
  by (simp_all add: live_def onstart_def startRecognition_def offline_def pick_ctor_def truthy_prop_def
      fresh_def full_page_def Let_def set_textContent_if_present_def emit_def)

subsection \<open>The claims\<close>

text \<open>
  C1 (as amended). A result event whose first result has the transcript \<open>t\<close> arrives on a
  page that has the user-text field. Then the handler issues exactly one request, a
  POST to \<^verbatim>\<open>/ask\<close> with the JSON body \<^verbatim>\<open>{message: t, email}\<close>, where \<^verbatim>\<open>email\<close> is the trimmed
  value of the email field, or the empty string when the page has no such field; this
  holds however the request ends. If the request resolves with a JSON object and the
  page has the bot-text field, the text shown there and spoken (after cancelling the
  speech queue, as one utterance at rate 1) is the \<^verbatim>\<open>reply\<close> when it is present and not
  the empty string, and the fixed fallback string when it is absent or empty.
\<close>

theorem onresult_ask_exchange:
  assumes "document st ''userText'' = Some u"
  shows "fetches (trace (snd (onresult ev st ((t # alts) # rest))))
           = fetches (trace st)
             @ [\<lparr>url = ''/ask'', http_method = POST,
                 headers = [(''Content-Type'', ''application/json'')],
                 body = Some \<lparr>message = t,
                              email = (case document st ''emailField'' of
                                         Some e \<Rightarrow> js_trim (el_value e) | None \<Rightarrow> [])\<rparr>\<rparr>]
         \<and> (\<forall>res out b shown.
               network ev (ask_request t (email_of st)) = NetResolves res
               \<and> payload res = Json out
               \<and> document st ''botText'' = Some b
               \<and> shown = (case out of
                            None \<Rightarrow> fallback_reply
                          | Some r \<Rightarrow> if r = [] then fallback_reply else r)
               \<longrightarrow> fst (onresult ev st ((t # alts) # rest)) = Fulfilled
                 \<and> map_option el_value (document (snd (onresult ev st ((t # alts) # rest))) ''botText'')
                     = Some shown
                 \<and> queue (snd (onresult ev st ((t # alts) # rest))) = [\<lparr>spoken = shown, rate = 1\<rparr>]
                 \<and> trace (snd (onresult ev st ((t # alts) # rest)))
                     = trace st @ [SetValue ''userText'' t, Fetch (ask_request t (email_of st)),
                                   SetValue ''botText'' shown, SynthCancel,
                                   SynthSpeak \<lparr>spoken = shown, rate = 1\<rparr>])"
proof (intro conjI allI impI)
  show "fetches (trace (snd (onresult ev st ((t # alts) # rest))))
           = fetches (trace st)
             @ [\<lparr>url = ''/ask'', http_method = POST,
                 headers = [(''Content-Type'', ''application/json'')],
                 body = Some \<lparr>message = t,
                              email = (case document st ''emailField'' of
                                         Some e \<Rightarrow> js_trim (el_value e) | None \<Rightarrow> [])\<rparr>\<rparr>]"
    using onresult_fetches [OF assms, of ev t alts rest]
    by (simp add: ask_request_def email_of_def)
next
  fix res out b shown
  assume h: "network ev (ask_request t (email_of st)) = NetResolves res
               \<and> payload res = Json out
               \<and> document st ''botText'' = Some b
               \<and> shown = (case out of
                            None \<Rightarrow> fallback_reply
                          | Some r \<Rightarrow> if r = [] then fallback_reply else r)"
  then have sh: "shown = reply_or_fallback out"
    by (simp add: reply_or_fallback_def split: option.splits)
  from h have hn: "network ev (ask_request t (email_of st)) = NetResolves res"
    and hp: "payload res = Json out" and hb: "document st ''botText'' = Some b"
    by blast+
  have run: "onresult ev st ((t # alts) # rest) =
           (Fulfilled,
            st\<lparr>document := (document st)(''userText'' \<mapsto> u\<lparr>el_value := t\<rparr>,
                                          ''botText'' \<mapsto> b\<lparr>el_value := shown\<rparr>),
               queue := [\<lparr>spoken = shown, rate = 1\<rparr>],
               trace := trace st @ [SetValue ''userText'' t, Fetch (ask_request t (email_of st)),
                                    SetValue ''botText'' shown, SynthCancel,
                                    SynthSpeak \<lparr>spoken = shown, rate = 1\<rparr>]\<rparr>)"
    using onresult_resolved [OF assms hb hn hp, of alts rest] by (simp add: sh)
  show "fst (onresult ev st ((t # alts) # rest)) = Fulfilled"
    by (simp add: run)
  show "map_option el_value (document (snd (onresult ev st ((t # alts) # rest))) ''botText'') = Some shown"
    by (simp add: run)
  show "queue (snd (onresult ev st ((t # alts) # rest))) = [\<lparr>spoken = shown, rate = 1\<rparr>]"
    by (simp add: run)
  show "trace (snd (onresult ev st ((t # alts) # rest)))
                     = trace st @ [SetValue ''userText'' t, Fetch (ask_request t (email_of st)),
                                   SetValue ''botText'' shown, SynthCancel,
                                   SynthSpeak \<lparr>spoken = shown, rate = 1\<rparr>]"
    by (simp add: run)
qed

theorem onresult_ask_exchange_witness:
  "document (fresh full_page) ''userText'' = Some (blank\<lparr>el_value := str ''old question''\<rparr>)
   \<and> fetches (trace (snd (onresult (chrome 200 (Json (Some (str ''Room booked''))))
                               (fresh full_page) [[str ''book a room'']])))
       = [ask_request (str ''book a room'') (str ''ann@corp.example'')]
   \<and> map_option el_value
         (document (snd (onresult (chrome 200 (Json (Some (str ''Room booked''))))
                          (fresh full_page) [[str ''book a room'']])) ''botText'')
       = Some (str ''Room booked'')
   \<and> queue (snd (onresult (chrome 200 (Json (Some (str ''Room booked''))))
                   (fresh full_page) [[str ''book a room'']]))
       = [\<lparr>spoken = str ''Room booked'', rate = 1\<rparr>]"
proof -
  let ?ev = "chrome 200 (Json (Some (str ''Room booked'')))"
  let ?t = "str ''book a room''"
  have u: "document (fresh full_page) ''userText'' = Some (blank\<lparr>el_value := str ''old question''\<rparr>)"
    by (simp add: fresh_def full_page_def)
  have em: "email_of (fresh full_page) = str ''ann@corp.example''"
    by (simp add: email_of_def fresh_def full_page_def blank_def js_trim_def str_def js_whitespace_def)
  have em': "(case document (fresh full_page) ''emailField'' of
                Some e \<Rightarrow> js_trim (el_value e) | None \<Rightarrow> []) = str ''ann@corp.example''"
    using em by (simp add: email_of_def)
  note th = onresult_ask_exchange [OF u, of ?ev ?t "[]" "[]"]
  have p1: "fetches (trace (snd (onresult ?ev (fresh full_page) [[?t]])))
              = [ask_request ?t (str ''ann@corp.example'')]"
    using th [THEN conjunct1] unfolding em' by (simp add: ask_request_def fresh_def)
  have pre: "network ?ev (ask_request ?t (email_of (fresh full_page)))
               = NetResolves \<lparr>status = 200, payload = Json (Some (str ''Room booked''))\<rparr>
             \<and> payload \<lparr>status = 200, payload = Json (Some (str ''Room booked''))\<rparr>
                 = Json (Some (str ''Room booked''))
             \<and> document (fresh full_page) ''botText'' = Some (blank\<lparr>el_value := str ''old answer''\<rparr>)
             \<and> str ''Room booked'' =
                 (case Some (str ''Room booked'') of
                    None \<Rightarrow> fallback_reply
                  | Some r \<Rightarrow> if r = [] then fallback_reply else r)"
    by (simp add: chrome_def fresh_def full_page_def str_def)
  from th [THEN conjunct2, rule_format, OF pre] p1 u show ?thesis
    by simp
qed

text \<open>
  C1 as stated fails: a response whose \<^verbatim>\<open>reply\<close> field is present and is the empty string
  is not shown verbatim; the bot-text field gets the fallback string.
\<close>

theorem onresult_empty_reply_counterexample:
  "network (chrome 200 (Json (Some []))) (ask_request (str ''book a room'') (str ''ann@corp.example''))
     = NetResolves \<lparr>status = 200, payload = Json (Some [])\<rparr>
   \<and> map_option el_value
       (document (snd (onresult (chrome 200 (Json (Some []))) (fresh full_page) [[str ''book a room'']]))
          ''botText'') = Some fallback_reply
   \<and> fallback_reply \<noteq> []"
proof -
  have u: "document (fresh full_page) ''userText'' = Some (blank\<lparr>el_value := str ''old question''\<rparr>)"
    and b: "document (fresh full_page) ''botText'' = Some (blank\<lparr>el_value := str ''old answer''\<rparr>)"
    by (simp_all add: fresh_def full_page_def)
  have n: "network (chrome 200 (Json (Some []))) req = NetResolves \<lparr>status = 200, payload = Json (Some [])\<rparr>"
    for req by (simp add: chrome_def)
  have "fallback_reply \<noteq> []"
    by (simp add: fallback_reply_def str_def)
  then show ?thesis
    by (simp add: onresult_resolved [OF u b n] n reply_or_fallback_def)
qed




text \<open>
  C3. \<^verbatim>\<open>stopAll\<close> never throws, whatever the session reference is and whether or not the
  recogniser's \<^verbatim>\<open>stop()\<close> throws. After it the session reference is null, \<^verbatim>\<open>listening\<close> is
  false and the mic button, when the page has one, shows the idle label. Calling it a
  second time leaves the page state (everything but the record of calls) as it was.
\<close>

theorem stopAll_total_idempotent:
  "fst (stopAll ev st) = Returned
   \<and> recognition (snd (stopAll ev st)) = None
   \<and> \<not> listening (snd (stopAll ev st))
   \<and> map_option textContent (document (snd (stopAll ev st)) ''micBtn'')
       = map_option (\<lambda>_. idle_label) (document st ''micBtn'')
   \<and> page_state (snd (stopAll ev (snd (stopAll ev st)))) = page_state (snd (stopAll ev st))"
proof -
  let ?s = "snd (stopAll ev st)"
  have lab: "map_option textContent (document ?s ''micBtn'') = map_option (\<lambda>_. idle_label) (document st ''micBtn'')"
    by (simp add: stopAll_document option.map_comp comp_def)
  have "map_option textContent (document ?s ''micBtn'') = map_option (\<lambda>_. idle_label) (document ?s ''micBtn'')"
    by (simp add: stopAll_document option.map_comp comp_def)
  then have "page_state (snd (stopAll ev ?s)) = page_state ?s"
    by (intro stopAll_idle_fixed) (simp_all add: stopAll_globals)
  with lab show ?thesis
    by (simp add: stopAll_returns stopAll_globals)
qed

theorem stopAll_total_idempotent_witness:
  "listening live \<and> recognition live = Some 0 \<and> stop_throws offline 0
   \<and> fst (stopAll offline live) = Returned
   \<and> recognition (snd (stopAll offline live)) = None
   \<and> \<not> listening (snd (stopAll offline live))
   \<and> map_option textContent (document (snd (stopAll offline live)) ''micBtn'') = Some idle_label
   \<and> page_state (snd (stopAll offline (snd (stopAll offline live))))
       = page_state (snd (stopAll offline live))"
  using stopAll_total_idempotent [of offline live]
  by (simp add: live_eval offline_def)

text \<open>
  C4. Whatever the world before and however the request ends, \<^verbatim>\<open>resetUI\<close> runs \<^verbatim>\<open>stopAll\<close>
  (so the session reference is null, \<^verbatim>\<open>listening\<close> false and the speech queue empty), then
  empties the user-text and the bot-text field of the page, then issues the request
  \<^verbatim>\<open>POST /reset\<close>, with no headers and no body: the calls it makes are those of \<^verbatim>\<open>stopAll\<close>,
  none of them a request, followed by the two writes and the request, in this order,
  so that exactly one request is issued. Its promise ends as that request does.
\<close>

theorem resetUI_sequence:
  "recognition (snd (resetUI ev st)) = None
   \<and> \<not> listening (snd (resetUI ev st))
   \<and> queue (snd (resetUI ev st)) = []
   \<and> map_option el_value (document (snd (resetUI ev st)) ''userText'')
       = map_option (\<lambda>_. []) (document st ''userText'')
   \<and> map_option el_value (document (snd (resetUI ev st)) ''botText'')
       = map_option (\<lambda>_. []) (document st ''botText'')
   \<and> trace (snd (resetUI ev st)) =
       trace (snd (stopAll ev st))
       @ (case document st ''userText'' of None \<Rightarrow> [] | Some _ \<Rightarrow> [SetValue ''userText'' []])
       @ (case document st ''botText'' of None \<Rightarrow> [] | Some _ \<Rightarrow> [SetValue ''botText'' []])
       @ [Fetch \<lparr>url = ''/reset'', http_method = POST, headers = [], body = None\<rparr>]
   \<and> fetches (trace (snd (stopAll ev st))) = fetches (trace st)
   \<and> fetches (trace (snd (resetUI ev st)))
       = fetches (trace st) @ [\<lparr>url = ''/reset'', http_method = POST, headers = [], body = None\<rparr>]
   \<and> fst (resetUI ev st) =
       (case network ev \<lparr>url = ''/reset'', http_method = POST, headers = [], body = None\<rparr> of
          NetResolves _ \<Rightarrow> Fulfilled
        | NetRejects \<Rightarrow> Rejected NetworkError
        | NetPending \<Rightarrow> Pending)"
proof -
  let ?s1 = "snd (stopAll ev st)"
  let ?req = "\<lparr>url = ''/reset'', http_method = POST, headers = [], body = None\<rparr>"
  have doc: "document ?s1 ''userText'' = document st ''userText''"
    "document ?s1 ''botText'' = document st ''botText''"
    by (simp_all add: stopAll_document)
  have tr: "trace (snd (resetUI ev st)) =
       trace ?s1
       @ (case document st ''userText'' of None \<Rightarrow> [] | Some _ \<Rightarrow> [SetValue ''userText'' []])
       @ (case document st ''botText'' of None \<Rightarrow> [] | Some _ \<Rightarrow> [SetValue ''botText'' []])
       @ [Fetch ?req]"
    by (simp add: resetUI_unfold set_value_if_present_trace set_value_if_present_document doc
        reset_request_def)
  have fe: "fetches (trace (snd (resetUI ev st))) = fetches (trace st) @ [?req]"
    unfolding tr by (simp add: fetches_stopAll split: option.splits)
  have u: "map_option el_value (document (snd (resetUI ev st)) ''userText'')
       = map_option (\<lambda>_. []) (document st ''userText'')"
    by (simp add: resetUI_unfold set_value_if_present_document doc option.map_comp comp_def)
  have b: "map_option el_value (document (snd (resetUI ev st)) ''botText'')
       = map_option (\<lambda>_. []) (document st ''botText'')"
    by (simp add: resetUI_unfold set_value_if_present_document doc option.map_comp comp_def)
  have pr: "fst (resetUI ev st) =
       (case network ev ?req of
          NetResolves _ \<Rightarrow> Fulfilled
        | NetRejects \<Rightarrow> Rejected NetworkError
        | NetPending \<Rightarrow> Pending)"
    by (simp add: resetUI_unfold await_fetch_def reset_request_def)
  have gl: "recognition (snd (resetUI ev st)) = None" "\<not> listening (snd (resetUI ev st))"
    "queue (snd (resetUI ev st)) = []"
    by (simp_all add: resetUI_unfold stopAll_globals)
  from gl u b tr fe pr show ?thesis
    by (simp only: fetches_stopAll simp_thms)
qed

theorem resetUI_sequence_witness:
  "fst (resetUI offline live) = Rejected NetworkError
   \<and> map_option el_value (document (snd (resetUI offline live)) ''userText'') = Some []
   \<and> map_option el_value (document (snd (resetUI offline live)) ''botText'') = Some []
   \<and> trace (snd (resetUI offline live)) =
       [RecNew 0, RecStart 0, SetTextContent ''micBtn'' listening_label,
        RecStop 0, ConsoleWarn, SynthCancel, SetTextContent ''micBtn'' idle_label,
        SetValue ''userText'' [], SetValue ''botText'' [],
        Fetch \<lparr>url = ''/reset'', http_method = POST, headers = [], body = None\<rparr>]
   \<and> fetches (trace (snd (resetUI offline live)))
       = [\<lparr>url = ''/reset'', http_method = POST, headers = [], body = None\<rparr>]"
  using resetUI_sequence [of offline live]
  by (simp add: live_eval stopAll_trace offline_def)

text \<open>
  C5 (as amended). When the \<^verbatim>\<open>GET /logout\<close> request resolves, with any status and any
  body, \<^verbatim>\<open>logout\<close> navigates the page to \<^verbatim>\<open>/login\<close>. When the request rejects or never
  resolves, the statement after the \<^verbatim>\<open>await\<close> is not run: the location of the page stays
  as it was, and the promise of \<^verbatim>\<open>logout\<close> is rejected or stays pending.
\<close>

theorem logout_navigation:
  "(network ev logout_request = NetResolves res \<longrightarrow>
      logout ev st =
        (Fulfilled,
         st\<lparr>href := str ''/login'',
            trace := trace st @ [Fetch logout_request, Navigate (str ''/login'')]\<rparr>))
   \<and> (network ev logout_request = NetRejects \<longrightarrow>
      logout ev st = (Rejected NetworkError, st\<lparr>trace := trace st @ [Fetch logout_request]\<rparr>))
   \<and> (network ev logout_request = NetPending \<longrightarrow>
      logout ev st = (Pending, st\<lparr>trace := trace st @ [Fetch logout_request]\<rparr>))"
  by (simp add: logout_def await_fetch_def logout_tail_def emit_def Let_def)

theorem logout_navigation_witness:
  "network (chrome 500 NotJson) logout_request = NetResolves \<lparr>status = 500, payload = NotJson\<rparr>
   \<and> href (snd (logout (chrome 500 NotJson) (fresh full_page))) = str ''/login''"
  using logout_navigation [of "chrome 500 NotJson" "\<lparr>status = 500, payload = NotJson\<rparr>" "fresh full_page"]
  by (simp add: chrome_def)

text \<open>
  C5 as stated fails: with a request that rejects, the page is not navigated.
\<close>

theorem logout_rejected_counterexample:
  "fst (logout offline (fresh full_page)) = Rejected NetworkError
   \<and> href (snd (logout offline (fresh full_page))) = str ''/''
   \<and> str ''/'' \<noteq> str ''/login''"
  by (simp add: logout_def await_fetch_def offline_def fresh_def emit_def Let_def str_def)

text \<open>
  C6. In a browser that has neither \<^verbatim>\<open>SpeechRecognition\<close> nor \<^verbatim>\<open>webkitSpeechRecognition\<close>,
  in every world the page can reach, a call of \<^verbatim>\<open>startRecognition\<close> makes exactly one
  call, the alert with the unsupported message, and changes nothing else; no recogniser
  exists before or after it.
\<close>

theorem startRecognition_unsupported:
  assumes "std_prop ev = Absent" "webkit_prop ev = Absent" "reachable ev st"
  shows "startRecognition ev st = (Returned, st\<lparr>trace := trace st @ [Alert unsupported_message]\<rparr>)
         \<and> heap st = [] \<and> recognition st = None"
  using unsupported_invariant [OF assms] assms(1,2)
  by (simp add: startRecognition_def emit_def)

theorem startRecognition_unsupported_witness:
  "std_prop no_recognizer = Absent \<and> webkit_prop no_recognizer = Absent
   \<and> reachable no_recognizer (snd (stopAll no_recognizer (fresh buttons_page)))
   \<and> fst (startRecognition no_recognizer (snd (stopAll no_recognizer (fresh buttons_page)))) = Returned
   \<and> trace (snd (startRecognition no_recognizer (snd (stopAll no_recognizer (fresh buttons_page)))))
       = [SynthCancel, SetTextContent ''micBtn'' idle_label, Alert unsupported_message]"
proof -
  have a: "std_prop no_recognizer = Absent" and b: "webkit_prop no_recognizer = Absent"
    by (simp_all add: no_recognizer_def)
  have "reachable no_recognizer (fresh buttons_page)"
    by (rule reachable.page_load) (simp_all add: fresh_def)
  then have r: "reachable no_recognizer (snd (stopAll no_recognizer (fresh buttons_page)))"
    by (rule reachable.call_stop)
  have t: "trace (snd (stopAll no_recognizer (fresh buttons_page)))
             = [SynthCancel, SetTextContent ''micBtn'' idle_label]"
    by (simp add: stopAll_trace fresh_def buttons_page_def)
  from startRecognition_unsupported [OF a b r] a b r t show ?thesis
    by simp
qed

text \<open>
  C7. The result handler on a page without the user-text field: the assignment to
  \<^verbatim>\<open>document.getElementById("userText").value\<close> is a TypeError, the handler's promise is
  rejected, and no request has been issued.
\<close>

theorem onresult_missing_userText:
  "onresult (chrome 200 (Json (Some (str ''Room booked'')))) (fresh buttons_page) [[str ''book a room'']]
     = (Rejected TypeError, fresh buttons_page)
   \<and> fetches (trace (fresh buttons_page)) = []"
  by (simp add: onresult_def onresult_head_def set_value_def fresh_def buttons_page_def)

text \<open>
  C8. \<^verbatim>\<open>speak\<close> with \<^verbatim>\<open>undefined\<close>, \<^verbatim>\<open>null\<close> or the empty string changes nothing and makes no
  call. With any other string it makes exactly two calls, \<^verbatim>\<open>cancel()\<close> and then
  \<^verbatim>\<open>speak(u)\<close> for one utterance \<open>u\<close> of that text at rate 1, and the queue
  afterwards holds \<open>u\<close> alone.
\<close>

theorem speak_contract:
  "speak Undefined st = st \<and> speak Null st = st \<and> speak (Str []) st = st
   \<and> (s \<noteq> [] \<longrightarrow>
        speak (Str s) st =
          st\<lparr>queue := [\<lparr>spoken = s, rate = 1\<rparr>],
             trace := trace st @ [SynthCancel, SynthSpeak \<lparr>spoken = s, rate = 1\<rparr>]\<rparr>)"
  by (simp add: speak_def synth_speak_def synth_cancel_def emit_def)

theorem speak_contract_witness:
  "str ''Room booked'' \<noteq> []
   \<and> queue (speak (Str (str ''Room booked''))
              ((fresh full_page)\<lparr>queue := [\<lparr>spoken = str ''old answer'', rate = 1\<rparr>]\<rparr>))
       = [\<lparr>spoken = str ''Room booked'', rate = 1\<rparr>]"
  using speak_contract [of "(fresh full_page)\<lparr>queue := [\<lparr>spoken = str ''old answer'', rate = 1\<rparr>]\<rparr>"
      "str ''Room booked''"]
  by (simp add: str_def)

text \<open>
  C9 (as amended). After \<^verbatim>\<open>stopAll\<close> the controller is idle and the session reference is
  null. The end and error callbacks make the controller idle as well (\<^verbatim>\<open>listening\<close> is
  false after them) but leave the session reference as it was.
\<close>

theorem idle_session_reference:
  "recognition (snd (stopAll ev st)) = None \<and> \<not> listening (snd (stopAll ev st))
   \<and> recognition (onend st) = recognition st \<and> \<not> listening (onend st)
   \<and> recognition (onerror st) = recognition st \<and> \<not> listening (onerror st)"
  by (simp add: stopAll_globals onend_def onerror_def)

text \<open>
  C9 as stated fails: after a session has started and ended, \<^verbatim>\<open>listening\<close> is false and
  the reference still holds the ended session.
\<close>

theorem idle_with_session_counterexample:
  "\<not> listening (onend (onstart (snd (startRecognition (chrome 200 NotJson) (fresh full_page)))))
   \<and> recognition (onend (onstart (snd (startRecognition (chrome 200 NotJson) (fresh full_page))))) = Some 0"
  by (simp add: onend_def onstart_def startRecognition_def chrome_def pick_ctor_def truthy_prop_def fresh_def Let_def)

text \<open>
  C10. \<^verbatim>\<open>stopAll\<close> leaves the user-text and the bot-text element of the page exactly as
  they were, their values included.
\<close>

theorem stopAll_keeps_text_fields:
  "document (snd (stopAll ev st)) ''userText'' = document st ''userText''
   \<and> document (snd (stopAll ev st)) ''botText'' = document st ''botText''"
  by (simp add: stopAll_document)

theorem stopAll_keeps_text_fields_witness:
  "map_option el_value (document (snd (stopAll offline live)) ''userText'') = Some (str ''old question'')
   \<and> map_option el_value (document (snd (stopAll offline live)) ''botText'') = Some (str ''old answer'')"
  using stopAll_keeps_text_fields [of offline live]
  by (simp add: live_eval blank_def)

end
